theory Spec2Isabelle
  imports Main
begin

section \<open>Data model\<close>

text \<open>
  Go's \<^verbatim>\<open>error\<close> values are built with \<^verbatim>\<open>errors.New(msg)\<close> or come from a
  collaborator; an error is modelled by its message. A Go function returning
  \<^verbatim>\<open>(v, error)\<close> returns a pair whose second component is \<open>None\<close> for \<^verbatim>\<open>nil\<close>.
\<close>

datatype error = Error string

text \<open>
  \<^verbatim>\<open>models.AccessKey\<close>, \<^verbatim>\<open>models.NetworkUpdate\<close> and \<^verbatim>\<open>models.Network\<close> are declared in
  package \<^verbatim>\<open>models\<close>; the records below carry the fields the controller reads and writes.
  A \<^verbatim>\<open>*bool\<close> field is a \<open>bool option\<close> (\<open>None\<close> for \<^verbatim>\<open>nil\<close>); numeric fields are only
  compared with zero and copied, so they are integers.
\<close>

record AccessKey =
  Name :: string
  Value :: string
  AccessString :: string
  Uses :: int

record NetworkUpdate =
  AddressRange :: string
  AddressRange6 :: string
  DisplayName :: string
  NetID :: string
  DefaultInterface :: string
  DefaultListenPort :: int
  NodeLimit :: int
  DefaultPostUp :: string
  DefaultPostDown :: string
  DefaultKeepalive :: int
  AllowManualSignUp :: "bool option"
  IsLocal :: "bool option"
  IsDualStack :: "bool option"
  LocalRange :: string
  DefaultCheckInInterval :: int

record Network =
  AddressRange :: string
  AddressRange6 :: string
  DisplayName :: string
  NetID :: string
  NodesLastModified :: int
  NetworkLastModified :: int
  DefaultInterface :: string
  DefaultListenPort :: int
  NodeLimit :: int
  DefaultPostUp :: string
  DefaultPostDown :: string
  KeyUpdateTimeStamp :: int
  DefaultKeepalive :: int
  DefaultSaveConfig :: "bool option"
  AccessKeys :: "AccessKey list"
  AllowManualSignUp :: "bool option"
  IsLocal :: "bool option"
  IsDualStack :: "bool option"
  LocalRange :: string
  DefaultCheckInInterval :: int

section \<open>The network listing filter\<close>

text \<open>
  \<^verbatim>\<open>RemoveComms\<close>: the loop keeps in \<open>index\<close> the position of the latest element whose
  \<open>NetID\<close> is \<^verbatim>\<open>"comms"\<close>, starting from the marker \<open>100000001\<close>. \<open>RemoveComms_loop\<close> is
  the \<^verbatim>\<open>for ind, net := range networks\<close> loop, with \<open>ind\<close> the running position.
\<close>

fun RemoveComms_loop :: "Network list \<Rightarrow> nat \<Rightarrow> nat \<Rightarrow> nat" where
  "RemoveComms_loop [] ind index = index"
| "RemoveComms_loop (net # nets) ind index =
     RemoveComms_loop nets (Suc ind) (if NetID net = ''comms'' then ind else index)"

definition RemoveComms :: "Network list \<Rightarrow> Network list" where
  "RemoveComms networks =
     (let index = RemoveComms_loop networks 0 100000001 in
      if index = 100000001 then networks
      else take index networks @ drop (index + 1) networks)"

section \<open>Authorization of a request\<close>

text \<open>
  The collaborators of the controller (packages \<^verbatim>\<open>functions\<close> and \<^verbatim>\<open>servercfg\<close>, the clock,
  the validator and the encoders) are parameters of the model, collected in one record.
  Each field returns what the Go function returns, an \<^verbatim>\<open>error\<close> being \<open>None\<close> for \<^verbatim>\<open>nil\<close>.
\<close>

datatype mongo_op = OpFindOne | OpFindOneAndUpdate | OpDeleteOne

record env =
  NetworkExists :: "string \<Rightarrow> bool \<times> error option"
  GetMasterKey :: string
  VerifyUserToken :: "string \<Rightarrow> string \<times> string list \<times> bool \<times> error option"
  GetNetworkNodeNumber :: "string \<Rightarrow> int \<times> error option"
  UpdateNetworkNodeAddresses :: "string \<Rightarrow> error option"
  UpdateNetworkLocalAddresses :: "string \<Rightarrow> error option"
  GenKeyName :: string
  GenKey :: string
  Marshal_AccessToken :: "string \<Rightarrow> string \<Rightarrow> string \<Rightarrow> string \<times> error option"
  EncodeToString :: "string \<Rightarrow> string"
  validate_AccessKey :: "AccessKey \<Rightarrow> error option"
  time_Now_Unix :: int
  mongo_fault :: "mongo_op \<Rightarrow> error option"

definition ALL_NETWORK_ACCESS :: string where
  "ALL_NETWORK_ACCESS = ''THIS_USER_HAS_ALL''"

definition NO_NETWORKS_PRESENT :: string where
  "NO_NETWORKS_PRESENT = ''THIS_USER_HAS_NONE''"

text \<open>
  \<^verbatim>\<open>strings.Split(s, sep)\<close> for a separator of one byte: the pieces of \<open>s\<close> between the
  occurrences of \<open>sep\<close>, one more piece than there are separators.
\<close>

fun strings_Split :: "string \<Rightarrow> char \<Rightarrow> string list" where
  "strings_Split [] sep = [[]]"
| "strings_Split (c # cs) sep =
     (if c = sep then [] # strings_Split cs sep
      else (case strings_Split cs sep of
              [] \<Rightarrow> [[c]]
            | piece # pieces \<Rightarrow> (c # piece) # pieces))"

definition authenticateMaster :: "env \<Rightarrow> string \<Rightarrow> bool" where
  "authenticateMaster env tokenString =
     (if tokenString = GetMasterKey env then True else False)"

text \<open>
  \<^verbatim>\<open>SecurityCheck\<close> returns \<^verbatim>\<open>(error, []string, string)\<close>; the \<^verbatim>\<open>nil\<close> slice of the error
  returns is \<open>None\<close>.
\<close>

definition SecurityCheck ::
  "env \<Rightarrow> bool \<Rightarrow> string \<Rightarrow> string \<Rightarrow> error option \<times> string list option \<times> string" where
  "SecurityCheck env reqAdmin netname token =
     (case NetworkExists env netname of
        (networkexists, Some err) \<Rightarrow> (Some err, None, '''')
      | (networkexists, None) \<Rightarrow>
          if netname \<noteq> '''' \<and> \<not> networkexists
          then (Some (Error ''This network does not exist''), None, '''')
          else
            let tokenSplit = strings_Split token (CHR '' '');
                hasBearer = \<not> (length tokenSplit < 2);
                authToken = (if length tokenSplit < 2 then '''' else tokenSplit ! 1);
                isMasterAuthenticated = authenticateMaster env authToken
            in
              if \<not> hasBearer \<or> \<not> isMasterAuthenticated then
                (case VerifyUserToken env authToken of
                   (userName, networks, isadmin, err) \<Rightarrow>
                     if err \<noteq> None
                     then (Some (Error ''Error verifying user token''), None, userName)
                     else if \<not> isadmin \<and> reqAdmin
                     then (Some (Error ''You are unauthorized to access this endpoint''),
                           None, userName)
                     else
                       let userNetworks = (if isadmin then [ALL_NETWORK_ACCESS] else networks)
                       in (None,
                           Some (if length userNetworks = 0
                                 then userNetworks @ [NO_NETWORKS_PRESENT] else userNetworks),
                           userName))
              else
                let userNetworks = (if isMasterAuthenticated then [ALL_NETWORK_ACCESS] else [])
                in (None,
                    Some (if length userNetworks = 0
                          then userNetworks @ [NO_NETWORKS_PRESENT] else userNetworks),
                    ''''))"

section \<open>The key-value table store\<close>

text \<open>
  The rqlite connection \<^verbatim>\<open>Database\<close> answers \<^verbatim>\<open>SELECT * FROM t ORDER BY key\<close> with the
  rows of table \<open>t\<close>, or with an error. The loop of \<^verbatim>\<open>FetchRecords\<close> stores each row in a
  Go map; reading a missing key from a Go map gives the zero value \<^verbatim>\<open>""\<close>.
\<close>

type_synonym Database = "string \<Rightarrow> (string \<times> string) list \<times> error option"

fun FetchRecords_loop ::
  "(string \<times> string) list \<Rightarrow> (string \<rightharpoonup> string) \<Rightarrow> (string \<rightharpoonup> string)" where
  "FetchRecords_loop [] records = records"
| "FetchRecords_loop ((key, val) # row) records = FetchRecords_loop row (records(key \<mapsto> val))"

definition FetchRecords :: "Database \<Rightarrow> string \<Rightarrow> (string \<rightharpoonup> string) \<times> error option" where
  "FetchRecords db tableName =
     (case db tableName of
        (row, Some err) \<Rightarrow> (Map.empty, Some err)
      | (row, None) \<Rightarrow> (FetchRecords_loop row Map.empty, None))"

definition FetchRecord :: "Database \<Rightarrow> string \<Rightarrow> string \<Rightarrow> string \<times> error option" where
  "FetchRecord db tableName key =
     (case FetchRecords db tableName of
        (results, Some err) \<Rightarrow> ('''', Some err)
      | (results, None) \<Rightarrow> ((case results key of None \<Rightarrow> '''' | Some v \<Rightarrow> v), None))"

section \<open>The document store and the mutating operations\<close>

text \<open>
  The Mongo collection \<^verbatim>\<open>networks\<close> is a list of documents, each a complete \<open>Network\<close>
  record, so that \<^verbatim>\<open>Decode(&network)\<close> overwrites the whole struct. The world also logs, in
  order, every mutating call that was issued: the writes to the collection and the two
  address-reallocation calls. A driver call fails when \<open>mongo_fault\<close> says so (the write is
  then not applied) or, for the two find calls, when no document matches the filter.
\<close>

datatype call =
    Call_FindOneAndUpdate string
  | Call_DeleteOne string
  | Call_UpdateNetworkNodeAddresses string
  | Call_UpdateNetworkLocalAddresses string

record world =
  collection :: "Network list"
  calls :: "call list"

definition ErrNoDocuments :: error where
  "ErrNoDocuments = Error ''mongo: no documents in result''"

definition empty_AccessKey :: AccessKey where
  "empty_AccessKey = \<lparr>Name = '''', Value = '''', AccessString = '''', Uses = 0\<rparr>"

definition empty_Network :: Network where
  "empty_Network =
     \<lparr>AddressRange = '''', AddressRange6 = '''', DisplayName = '''', NetID = '''',
      NodesLastModified = 0, NetworkLastModified = 0, DefaultInterface = '''',
      DefaultListenPort = 0, NodeLimit = 0, DefaultPostUp = '''', DefaultPostDown = '''',
      KeyUpdateTimeStamp = 0, DefaultKeepalive = 0, DefaultSaveConfig = None,
      AccessKeys = [], AllowManualSignUp = None, IsLocal = None, IsDualStack = None,
      LocalRange = '''', DefaultCheckInInterval = 0\<rparr>"

fun update_first :: "string \<Rightarrow> (Network \<Rightarrow> Network) \<Rightarrow> Network list \<Rightarrow> Network list" where
  "update_first netid update [] = []"
| "update_first netid update (doc # docs) =
     (if NetID doc = netid then update doc # docs else doc # update_first netid update docs)"

fun delete_first :: "string \<Rightarrow> Network list \<Rightarrow> Network list" where
  "delete_first netid [] = []"
| "delete_first netid (doc # docs) =
     (if NetID doc = netid then docs else doc # delete_first netid docs)"

definition FindOne :: "env \<Rightarrow> string \<Rightarrow> world \<Rightarrow> error + Network" where
  "FindOne env netid w =
     (case mongo_fault env OpFindOne of
        Some err \<Rightarrow> Inl err
      | None \<Rightarrow>
          (case find (\<lambda>doc. NetID doc = netid) (collection w) of
             None \<Rightarrow> Inl ErrNoDocuments
           | Some doc \<Rightarrow> Inr doc))"

text \<open>\<^verbatim>\<open>FindOneAndUpdate\<close> applies \<^verbatim>\<open>$set\<close> to the first match and returns the document as
  it was before the update.\<close>

definition FindOneAndUpdate ::
  "env \<Rightarrow> string \<Rightarrow> (Network \<Rightarrow> Network) \<Rightarrow> world \<Rightarrow> (error + Network) \<times> world" where
  "FindOneAndUpdate env netid update w =
     (let w = w\<lparr>calls := calls w @ [Call_FindOneAndUpdate netid]\<rparr> in
      case mongo_fault env OpFindOneAndUpdate of
        Some err \<Rightarrow> (Inl err, w)
      | None \<Rightarrow>
          (case find (\<lambda>doc. NetID doc = netid) (collection w) of
             None \<Rightarrow> (Inl ErrNoDocuments, w)
           | Some doc \<Rightarrow> (Inr doc, w\<lparr>collection := update_first netid update (collection w)\<rparr>)))"

text \<open>\<^verbatim>\<open>DeleteOne\<close> removes the first match and reports how many documents it removed.\<close>

definition DeleteOne :: "env \<Rightarrow> string \<Rightarrow> world \<Rightarrow> (error + int) \<times> world" where
  "DeleteOne env netid w =
     (let w = w\<lparr>calls := calls w @ [Call_DeleteOne netid]\<rparr> in
      case mongo_fault env OpDeleteOne of
        Some err \<Rightarrow> (Inl err, w)
      | None \<Rightarrow>
          (case find (\<lambda>doc. NetID doc = netid) (collection w) of
             None \<Rightarrow> (Inr 0, w)
           | Some doc \<Rightarrow> (Inr 1, w\<lparr>collection := delete_first netid (collection w)\<rparr>)))"

text \<open>Modelled from the spec: \<^verbatim>\<open>functions.GetParentNetwork\<close> is not among the sources; it is
  the store's \<^verbatim>\<open>get(netID) -> Network|NotFound\<close>, the read that \<^verbatim>\<open>GetNetwork\<close> performs.\<close>

definition GetParentNetwork :: "env \<Rightarrow> string \<Rightarrow> world \<Rightarrow> Network \<times> error option" where
  "GetParentNetwork env netname w =
     (case FindOne env netname w of
        Inl err \<Rightarrow> (empty_Network, Some err)
      | Inr network \<Rightarrow> (network, None))"

definition GetNetwork :: "env \<Rightarrow> string \<Rightarrow> world \<Rightarrow> Network \<times> error option" where
  "GetNetwork env name w =
     (case FindOne env name w of
        Inl err \<Rightarrow> (empty_Network, Some err)
      | Inr network \<Rightarrow> (network, None))"

definition GetKeys :: "env \<Rightarrow> string \<Rightarrow> world \<Rightarrow> AccessKey list \<times> error option" where
  "GetKeys env net w =
     (case FindOne env net w of
        Inl err \<Rightarrow> ([], Some err)
      | Inr network \<Rightarrow> (AccessKeys network, None))"

text \<open>Modelled from the spec: \<^verbatim>\<open>SetNetworkLastModified\<close> is declared in package \<^verbatim>\<open>models\<close>;
  it stamps a new \<open>networkLastModified\<close> timestamp, the current Unix time.\<close>

definition SetNetworkLastModified :: "env \<Rightarrow> Network \<Rightarrow> Network" where
  "SetNetworkLastModified env network = network\<lparr>NetworkLastModified := time_Now_Unix env\<rparr>"

subsection \<open>Updating a network\<close>

text \<open>
  The merge of \<^verbatim>\<open>UpdateNetwork\<close>: the three flags, the twelve \<^verbatim>\<open>if\<close> blocks in the order
  of the source, each rebinding the locals it assigns, and the timestamp. The result is
  \<open>(network, haschange, hasrangeupdate, haslocalrangeupdate)\<close>.
\<close>

definition UpdateNetwork_merge ::
  "env \<Rightarrow> NetworkUpdate \<Rightarrow> Network \<Rightarrow> Network \<times> bool \<times> bool \<times> bool" where
  "UpdateNetwork_merge env networkChange network =
     (let haschange = False;
          hasrangeupdate = False;
          haslocalrangeupdate = False;
          (haschange, hasrangeupdate, network) =
            (if NetworkUpdate.AddressRange networkChange \<noteq> ''''
             then (True, True,
                   network\<lparr>AddressRange := NetworkUpdate.AddressRange networkChange\<rparr>)
             else (haschange, hasrangeupdate, network));
          (haschange, haslocalrangeupdate, network) =
            (if NetworkUpdate.LocalRange networkChange \<noteq> ''''
             then (True, True,
                   network\<lparr>LocalRange := NetworkUpdate.LocalRange networkChange\<rparr>)
             else (haschange, haslocalrangeupdate, network));
          network =
            (if NetworkUpdate.IsLocal networkChange \<noteq> None
             then network\<lparr>IsLocal := NetworkUpdate.IsLocal networkChange\<rparr>
             else network);
          network =
            (if NetworkUpdate.IsDualStack networkChange \<noteq> None
             then network\<lparr>IsDualStack := NetworkUpdate.IsDualStack networkChange\<rparr>
             else network);
          (network, haschange) =
            (if NetworkUpdate.DefaultListenPort networkChange \<noteq> 0
             then (network\<lparr>DefaultListenPort :=
                              NetworkUpdate.DefaultListenPort networkChange\<rparr>, True)
             else (network, haschange));
          (network, haschange) =
            (if NetworkUpdate.DefaultPostDown networkChange \<noteq> ''''
             then (network\<lparr>DefaultPostDown :=
                              NetworkUpdate.DefaultPostDown networkChange\<rparr>, True)
             else (network, haschange));
          (network, haschange) =
            (if NetworkUpdate.DefaultInterface networkChange \<noteq> ''''
             then (network\<lparr>DefaultInterface :=
                              NetworkUpdate.DefaultInterface networkChange\<rparr>, True)
             else (network, haschange));
          (network, haschange) =
            (if NetworkUpdate.DefaultPostUp networkChange \<noteq> ''''
             then (network\<lparr>DefaultPostUp :=
                              NetworkUpdate.DefaultPostUp networkChange\<rparr>, True)
             else (network, haschange));
          (network, haschange) =
            (if NetworkUpdate.DefaultKeepalive networkChange \<noteq> 0
             then (network\<lparr>DefaultKeepalive :=
                              NetworkUpdate.DefaultKeepalive networkChange\<rparr>, True)
             else (network, haschange));
          (network, haschange) =
            (if NetworkUpdate.DisplayName networkChange \<noteq> ''''
             then (network\<lparr>DisplayName := NetworkUpdate.DisplayName networkChange\<rparr>, True)
             else (network, haschange));
          (network, haschange) =
            (if NetworkUpdate.DefaultCheckInInterval networkChange \<noteq> 0
             then (network\<lparr>DefaultCheckInInterval :=
                              NetworkUpdate.DefaultCheckInInterval networkChange\<rparr>, True)
             else (network, haschange));
          (network, haschange) =
            (if NetworkUpdate.AllowManualSignUp networkChange \<noteq> None
             then (network\<lparr>AllowManualSignUp :=
                              NetworkUpdate.AllowManualSignUp networkChange\<rparr>, True)
             else (network, haschange));
          network = (if haschange then SetNetworkLastModified env network else network)
      in (network, haschange, hasrangeupdate, haslocalrangeupdate))"

text \<open>
  The two cascading calls and the final re-read of \<^verbatim>\<open>UpdateNetwork\<close>, entered with the
  document that \<^verbatim>\<open>FindOneAndUpdate\<close> decoded into \<open>network\<close>.
\<close>

definition UpdateNetwork_cascade ::
  "env \<Rightarrow> Network \<Rightarrow> bool \<Rightarrow> bool \<Rightarrow> world \<Rightarrow> (Network \<times> error option) \<times> world" where
  "UpdateNetwork_cascade env network hasrangeupdate haslocalrangeupdate w =
     (let (err, w) =
            (if hasrangeupdate
             then (UpdateNetworkNodeAddresses env (NetID network),
                   w\<lparr>calls := calls w @ [Call_UpdateNetworkNodeAddresses (NetID network)]\<rparr>)
             else (None, w))
      in if err \<noteq> None then ((empty_Network, err), w)
         else
           let (err, w) =
                 (if haslocalrangeupdate
                  then (UpdateNetworkLocalAddresses env (NetID network),
                        w\<lparr>calls := calls w @ [Call_UpdateNetworkLocalAddresses (NetID network)]\<rparr>)
                  else (None, w))
           in if err \<noteq> None then ((empty_Network, err), w)
              else
                (case GetParentNetwork env (NetID network) w of
                   (returnnetwork, Some err) \<Rightarrow> ((empty_Network, Some err), w)
                 | (returnnetwork, None) \<Rightarrow> ((returnnetwork, None), w)))"

definition UpdateNetwork ::
  "env \<Rightarrow> NetworkUpdate \<Rightarrow> Network \<Rightarrow> world \<Rightarrow> (Network \<times> error option) \<times> world" where
  "UpdateNetwork env networkChange network w =
     (if NetworkUpdate.NetID networkChange \<noteq> NetID network
      then ((empty_Network, Some (Error ''NetID is not editable'')), w)
      else
        let (network, haschange, hasrangeupdate, haslocalrangeupdate) =
              UpdateNetwork_merge env networkChange network;
            update = (\<lambda>doc. doc
              \<lparr>AddressRange := AddressRange network,
               AddressRange6 := AddressRange6 network,
               DisplayName := DisplayName network,
               DefaultListenPort := DefaultListenPort network,
               DefaultPostUp := DefaultPostUp network,
               DefaultPostDown := DefaultPostDown network,
               DefaultKeepalive := DefaultKeepalive network,
               DefaultSaveConfig := DefaultSaveConfig network,
               DefaultInterface := DefaultInterface network,
               NodesLastModified := NodesLastModified network,
               NetworkLastModified := NetworkLastModified network,
               AllowManualSignUp := AllowManualSignUp network,
               LocalRange := LocalRange network,
               IsLocal := IsLocal network,
               IsDualStack := IsDualStack network,
               DefaultCheckInInterval := DefaultCheckInInterval network\<rparr>);
            (res, w) = FindOneAndUpdate env (NetID network) update w
        in case res of
             Inl err \<Rightarrow> ((empty_Network, Some err), w)
           | Inr doc \<Rightarrow> UpdateNetwork_cascade env doc hasrangeupdate haslocalrangeupdate w)"

subsection \<open>The node-limit handler\<close>

text \<open>
  A handler answers with an error response (\<^verbatim>\<open>formatError(err, errtype)\<close>) or with status
  200 and the encoded network. The request body arrives decoded as \<open>networkChange\<close>.
\<close>

datatype response = ErrorResponse error string | StatusOK Network

definition updateNetworkNodeLimit ::
  "env \<Rightarrow> string \<Rightarrow> NetworkUpdate \<Rightarrow> world \<Rightarrow> response \<times> world" where
  "updateNetworkNodeLimit env netname networkChange w =
     (case GetParentNetwork env netname w of
        (network, Some err) \<Rightarrow> (ErrorResponse err ''internal'', w)
      | (network, None) \<Rightarrow>
          if NetworkUpdate.NodeLimit networkChange \<noteq> 0 then
            (let update = (\<lambda>doc. doc\<lparr>NodeLimit := NetworkUpdate.NodeLimit networkChange\<rparr>);
                 (res, w) = FindOneAndUpdate env (NetID network) update w
             in case res of
                  Inl err \<Rightarrow> (ErrorResponse err ''badrequest'', w)
                | Inr doc \<Rightarrow> (StatusOK doc, w))
          else (StatusOK network, w))"

subsection \<open>Deleting a network\<close>

text \<open>\<^verbatim>\<open>DeleteNetwork\<close> returns the \<^verbatim>\<open>DeletedCount\<close> of the driver's result, zero for the
  empty result \<open>none\<close>.\<close>

definition DeleteNetwork :: "env \<Rightarrow> string \<Rightarrow> world \<Rightarrow> (int \<times> error option) \<times> world" where
  "DeleteNetwork env network w =
     (case GetNetworkNodeNumber env network of
        (nodecount, Some err) \<Rightarrow> ((0, Some err), w)
      | (nodecount, None) \<Rightarrow>
          if nodecount > 0
          then ((0, Some (Error
                  ''Node check failed. All nodes must be deleted before deleting network'')), w)
          else
            (let (res, w) = DeleteOne env network w
             in case res of
                  Inl err \<Rightarrow> ((0, Some err), w)
                | Inr deleteResult \<Rightarrow> ((deleteResult, None), w)))"

subsection \<open>Issuing an access key\<close>

text \<open>The loop over \<open>checkkeys\<close> that returns at the first key with the requested name.\<close>

fun CreateAccessKey_loop :: "AccessKey list \<Rightarrow> string \<Rightarrow> bool" where
  "CreateAccessKey_loop [] name = False"
| "CreateAccessKey_loop (key # checkkeys) name =
     (if Name key = name then True else CreateAccessKey_loop checkkeys name)"

definition CreateAccessKey ::
  "env \<Rightarrow> AccessKey \<Rightarrow> Network \<Rightarrow> world \<Rightarrow> (AccessKey \<times> error option) \<times> world" where
  "CreateAccessKey env accesskey network w =
     (let accesskey =
            (if Name accesskey = '''' then accesskey\<lparr>Name := GenKeyName env\<rparr> else accesskey);
          accesskey =
            (if Value accesskey = '''' then accesskey\<lparr>Value := GenKey env\<rparr> else accesskey);
          accesskey = (if Uses accesskey = 0 then accesskey\<lparr>Uses := 1\<rparr> else accesskey)
      in case GetKeys env (NetID network) w of
           (checkkeys, Some err) \<Rightarrow>
             ((empty_AccessKey, Some (Error ''could not retrieve network keys'')), w)
         | (checkkeys, None) \<Rightarrow>
             (if CreateAccessKey_loop checkkeys (Name accesskey)
              then ((empty_AccessKey, Some (Error ''Duplicate AccessKey Name'')), w)
              else
                (let privAddr =
                       (case IsLocal network of
                          None \<Rightarrow> ''''
                        | Some isLocal \<Rightarrow> if isLocal then LocalRange network else '''');
                     netID = NetID network
                 in (case Marshal_AccessToken env netID (Value accesskey) privAddr of
                       (tokenjson, Some err) \<Rightarrow> ((accesskey, Some err), w)
                     | (tokenjson, None) \<Rightarrow>
                         (let accesskey =
                                accesskey\<lparr>AccessString := EncodeToString env tokenjson\<rparr>
                          in (case validate_AccessKey env accesskey of
                                Some err \<Rightarrow> ((empty_AccessKey, Some err), w)
                              | None \<Rightarrow>
                                  (let network =
                                         network\<lparr>AccessKeys := AccessKeys network @ [accesskey]\<rparr>;
                                       update = (\<lambda>doc. doc\<lparr>AccessKeys := AccessKeys network\<rparr>);
                                       (res, w) =
                                         FindOneAndUpdate env (NetID network) update w
                                   in (case res of
                                         Inl err \<Rightarrow> ((empty_AccessKey, Some err), w)
                                       | Inr doc \<Rightarrow> ((accesskey, None), w)))))))))"

section \<open>Concrete scenarios\<close>

text \<open>
  The zero value of a patch, and one small deployment: two networks, the first with
  dependent nodes and one access key, an operator secret and one non-admin user token.
\<close>

definition empty_NetworkUpdate :: NetworkUpdate where
  "empty_NetworkUpdate =
     \<lparr>NetworkUpdate.AddressRange = '''', AddressRange6 = '''', DisplayName = '''', NetID = '''',
      DefaultInterface = '''', DefaultListenPort = 0, NodeLimit = 0, DefaultPostUp = '''',
      DefaultPostDown = '''', DefaultKeepalive = 0, AllowManualSignUp = None, IsLocal = None,
      IsDualStack = None, LocalRange = '''', DefaultCheckInInterval = 0\<rparr>"

definition key1 :: AccessKey where
  "key1 = \<lparr>Name = ''laptop'', Value = ''s3cret'', AccessString = ''b64'', Uses = 1\<rparr>"

definition net1 :: Network where
  "net1 = empty_Network
     \<lparr>AddressRange := ''10.0.0.0/24'', DisplayName := ''first'', NetID := ''net1'',
      NetworkLastModified := 1600000000, NodeLimit := 5, AccessKeys := [key1]\<rparr>"

definition net2 :: Network where
  "net2 = empty_Network
     \<lparr>AddressRange := ''10.0.1.0/24'', DisplayName := ''second'', NetID := ''net2'',
      NodeLimit := 7\<rparr>"

definition comms_net :: Network where
  "comms_net = empty_Network\<lparr>NetID := ''comms''\<rparr>"

definition env0 :: env where
  "env0 =
     \<lparr>NetworkExists = (\<lambda>netname. (netname = ''net1'' \<or> netname = ''net2'', None)),
      GetMasterKey = ''secretkey'',
      VerifyUserToken = (\<lambda>token.
        if token = ''usertoken'' then (''alice'', [''net1''], False, None)
        else ('''', [], False, Some (Error ''token invalid''))),
      GetNetworkNodeNumber = (\<lambda>netname. (if netname = ''net1'' then 2 else 0, None)),
      UpdateNetworkNodeAddresses = (\<lambda>netname. None),
      UpdateNetworkLocalAddresses = (\<lambda>netname. None),
      GenKeyName = ''laptop'',
      GenKey = ''generated'',
      Marshal_AccessToken = (\<lambda>netID key privAddr. (netID @ key @ privAddr, None)),
      EncodeToString = (\<lambda>tokenjson. tokenjson),
      validate_AccessKey = (\<lambda>accesskey. None),
      time_Now_Unix = 1700000000,
      mongo_fault = (\<lambda>op. None)\<rparr>"

definition world0 :: world where
  "world0 = \<lparr>collection = [net1, net2], calls = []\<rparr>"

definition db0 :: Database where
  "db0 = (\<lambda>tableName.
     if tableName = ''networks'' then ([(''present'', '''')], None)
     else ([], Some (Error ''no such table'')))"

definition patch_same_range :: NetworkUpdate where
  "patch_same_range = empty_NetworkUpdate
     \<lparr>NetworkUpdate.AddressRange := ''10.0.0.0/24'', NetworkUpdate.NetID := ''net1''\<rparr>"

definition patch_ipv6_only :: NetworkUpdate where
  "patch_ipv6_only = empty_NetworkUpdate
     \<lparr>NetworkUpdate.AddressRange6 := ''fd00::/64'', NetworkUpdate.NetID := ''net1''\<rparr>"

definition patch_zero :: NetworkUpdate where
  "patch_zero = empty_NetworkUpdate\<lparr>NetworkUpdate.NetID := ''net1''\<rparr>"

definition patch_other_id :: NetworkUpdate where
  "patch_other_id = empty_NetworkUpdate\<lparr>NetworkUpdate.NetID := ''other''\<rparr>"

definition patch_limit :: NetworkUpdate where
  "patch_limit = empty_NetworkUpdate\<lparr>NetworkUpdate.NodeLimit := 9\<rparr>"

section \<open>Auxiliary facts\<close>

lemma scenario_NetID:
  "NetID net1 = ''net1''" "NetID net2 = ''net2''" "NetID comms_net = ''comms''"
  by (simp_all add: net1_def net2_def comms_net_def empty_Network_def)

lemma scenario_find:
  "find (\<lambda>doc. NetID doc = ''net1'') (collection world0) = Some net1"
  "find (\<lambda>doc. NetID doc = ''net2'') (collection world0) = Some net2"
  by (simp_all add: world0_def scenario_NetID)

lemma scenario_fault: "mongo_fault env0 op = None"
  by (simp add: env0_def)

lemma find_NetID: "find (\<lambda>doc. NetID doc = netid) docs = Some doc \<Longrightarrow> NetID doc = netid"
  by (induction docs) (auto split: if_splits)

lemma find_first_match:
  "\<forall>d\<in>set pre. NetID d \<noteq> netid \<Longrightarrow> NetID doc = netid \<Longrightarrow>
   find (\<lambda>doc. NetID doc = netid) (pre @ doc # post) = Some doc"
  by (induction pre) auto

lemma update_first_match:
  "\<forall>d\<in>set pre. NetID d \<noteq> netid \<Longrightarrow> NetID doc = netid \<Longrightarrow>
   update_first netid update (pre @ doc # post) = pre @ update doc # post"
  by (induction pre) auto

subsection \<open>Bearer headers\<close>

text \<open>A header made of a scheme, one space and a token, neither holding a space, splits
  into exactly these two pieces.\<close>

lemma strings_Split_no_sep: "sep \<notin> set s \<Longrightarrow> strings_Split s sep = [s]"
  by (induction s) auto

lemma strings_Split_first_sep:
  "sep \<notin> set a \<Longrightarrow> strings_Split (a @ sep # b) sep = a # strings_Split b sep"
  by (induction a) auto

lemma strings_Split_bearer:
  "CHR '' '' \<notin> set scheme \<Longrightarrow> CHR '' '' \<notin> set authToken \<Longrightarrow>
   strings_Split (scheme @ '' '' @ authToken) (CHR '' '') = [scheme, authToken]"
  by (simp add: strings_Split_first_sep strings_Split_no_sep)

subsection \<open>The listing filter\<close>

lemma RemoveComms_loop_none:
  "\<forall>n\<in>set nets. NetID n \<noteq> ''comms'' \<Longrightarrow> RemoveComms_loop nets ind index = index"
  by (induction nets arbitrary: ind index) simp_all

lemma RemoveComms_loop_last:
  "NetID c = ''comms'' \<Longrightarrow> \<forall>n\<in>set post. NetID n \<noteq> ''comms'' \<Longrightarrow>
   RemoveComms_loop (pre @ c # post) ind index = ind + length pre"
  by (induction pre arbitrary: ind index) (simp_all add: RemoveComms_loop_none)

text \<open>Every list that holds a \<^verbatim>\<open>comms\<close> element splits at the last one.\<close>

lemma last_comms_split:
  "\<exists>n\<in>set nets. NetID n = ''comms'' \<Longrightarrow>
   \<exists>pre c post. nets = pre @ c # post \<and> NetID c = ''comms'' \<and>
                 (\<forall>n\<in>set post. NetID n \<noteq> ''comms'')"
  using split_list_last_prop [of nets "\<lambda>n. NetID n = ''comms''"] by blast

subsection \<open>The table store and the key list\<close>

lemma FetchRecords_loop_absent:
  "key \<notin> fst ` set row \<Longrightarrow> FetchRecords_loop row records key = records key"
  by (induction row records rule: FetchRecords_loop.induct) auto

lemma CreateAccessKey_loop_iff:
  "CreateAccessKey_loop checkkeys name \<longleftrightarrow> name \<in> Name ` set checkkeys"
  by (induction checkkeys) auto

subsection \<open>The merge\<close>

text \<open>
  Projections of the merge. A conditional assignment to one field is rewritten into an
  update with a conditional value, which keeps the terms linear in the number of blocks.
\<close>

lemma fst_if_Pair: "fst (if c then (a, b) else (a', b')) = (if c then a else a')"
  by simp

lemma snd_if_Pair: "snd (if c then (a, b) else (a', b')) = (if c then b else b')"
  by simp

lemma if_update_fields:
  "(if c then (n::Network)\<lparr>AddressRange := v0\<rparr> else n) =
     n\<lparr>AddressRange := (if c then v0 else AddressRange n)\<rparr>"
  "(if c then (n::Network)\<lparr>LocalRange := v1\<rparr> else n) =
     n\<lparr>LocalRange := (if c then v1 else LocalRange n)\<rparr>"
  "(if c then (n::Network)\<lparr>IsLocal := v2\<rparr> else n) =
     n\<lparr>IsLocal := (if c then v2 else IsLocal n)\<rparr>"
  "(if c then (n::Network)\<lparr>IsDualStack := v3\<rparr> else n) =
     n\<lparr>IsDualStack := (if c then v3 else IsDualStack n)\<rparr>"
  "(if c then (n::Network)\<lparr>DefaultListenPort := v4\<rparr> else n) =
     n\<lparr>DefaultListenPort := (if c then v4 else DefaultListenPort n)\<rparr>"
  "(if c then (n::Network)\<lparr>DefaultPostDown := v5\<rparr> else n) =
     n\<lparr>DefaultPostDown := (if c then v5 else DefaultPostDown n)\<rparr>"
  "(if c then (n::Network)\<lparr>DefaultInterface := v6\<rparr> else n) =
     n\<lparr>DefaultInterface := (if c then v6 else DefaultInterface n)\<rparr>"
  "(if c then (n::Network)\<lparr>DefaultPostUp := v7\<rparr> else n) =
     n\<lparr>DefaultPostUp := (if c then v7 else DefaultPostUp n)\<rparr>"
  "(if c then (n::Network)\<lparr>DefaultKeepalive := v8\<rparr> else n) =
     n\<lparr>DefaultKeepalive := (if c then v8 else DefaultKeepalive n)\<rparr>"
  "(if c then (n::Network)\<lparr>DisplayName := v9\<rparr> else n) =
     n\<lparr>DisplayName := (if c then v9 else DisplayName n)\<rparr>"
  "(if c then (n::Network)\<lparr>DefaultCheckInInterval := v10\<rparr> else n) =
     n\<lparr>DefaultCheckInInterval := (if c then v10 else DefaultCheckInInterval n)\<rparr>"
  "(if c then (n::Network)\<lparr>AllowManualSignUp := v11\<rparr> else n) =
     n\<lparr>AllowManualSignUp := (if c then v11 else AllowManualSignUp n)\<rparr>"
  "(if c then (n::Network)\<lparr>NetworkLastModified := v12\<rparr> else n) =
     n\<lparr>NetworkLastModified := (if c then v12 else NetworkLastModified n)\<rparr>"
  by simp_all

lemma merge_rangeflags:
  "snd (snd (UpdateNetwork_merge env networkChange network)) =
     (NetworkUpdate.AddressRange networkChange \<noteq> '''',
      NetworkUpdate.LocalRange networkChange \<noteq> '''')"
  unfolding UpdateNetwork_merge_def Let_def
  by (simp add: split_def fst_if_Pair snd_if_Pair)

lemma merge_NetID:
  "NetID (fst (UpdateNetwork_merge env networkChange network)) = NetID network"
  unfolding UpdateNetwork_merge_def Let_def SetNetworkLastModified_def
  by (simp add: split_def fst_if_Pair snd_if_Pair if_update_fields)

lemma merge_AddressRange:
  "AddressRange (fst (UpdateNetwork_merge env networkChange network)) =
     (if NetworkUpdate.AddressRange networkChange \<noteq> ''''
      then NetworkUpdate.AddressRange networkChange else AddressRange network)"
  unfolding UpdateNetwork_merge_def Let_def SetNetworkLastModified_def
  by (simp add: split_def fst_if_Pair snd_if_Pair if_update_fields)

lemma merge_AddressRange6:
  "AddressRange6 (fst (UpdateNetwork_merge env networkChange network)) = AddressRange6 network"
  unfolding UpdateNetwork_merge_def Let_def SetNetworkLastModified_def
  by (simp add: split_def fst_if_Pair snd_if_Pair if_update_fields)

subsection \<open>The calls of an update\<close>

lemma cascade_calls:
  "calls (snd (UpdateNetwork_cascade env network hasrangeupdate haslocalrangeupdate w)) =
     calls w
     @ (if hasrangeupdate then [Call_UpdateNetworkNodeAddresses (NetID network)] else [])
     @ (if haslocalrangeupdate \<and>
           (\<not> hasrangeupdate \<or> UpdateNetworkNodeAddresses env (NetID network) = None)
        then [Call_UpdateNetworkLocalAddresses (NetID network)] else [])"
  by (auto simp add: UpdateNetwork_cascade_def split: prod.splits option.splits)

lemma UpdateNetwork_calls:
  assumes "NetworkUpdate.NetID networkChange = NetID network"
      and "mongo_fault env OpFindOneAndUpdate = None"
      and "find (\<lambda>doc. NetID doc = NetID network) (collection w) = Some doc"
  shows "calls (snd (UpdateNetwork env networkChange network w)) =
     calls w @ [Call_FindOneAndUpdate (NetID network)]
     @ (if NetworkUpdate.AddressRange networkChange \<noteq> ''''
        then [Call_UpdateNetworkNodeAddresses (NetID network)] else [])
     @ (if NetworkUpdate.LocalRange networkChange \<noteq> '''' \<and>
           (NetworkUpdate.AddressRange networkChange = '''' \<or>
            UpdateNetworkNodeAddresses env (NetID network) = None)
        then [Call_UpdateNetworkLocalAddresses (NetID network)] else [])"
proof -
  obtain network' haschange where m:
    "UpdateNetwork_merge env networkChange network =
       (network', haschange, NetworkUpdate.AddressRange networkChange \<noteq> '''',
        NetworkUpdate.LocalRange networkChange \<noteq> '''')"
    using merge_rangeflags [of env networkChange network]
    by (cases "UpdateNetwork_merge env networkChange network") auto
  have nid: "NetID network' = NetID network"
    using merge_NetID [of env networkChange network] m by simp
  have doc: "NetID doc = NetID network"
    using assms(3) by (rule find_NetID)
  show ?thesis
    using assms
    by (simp add: UpdateNetwork_def m nid doc FindOneAndUpdate_def cascade_calls)
qed

section \<open>The claims\<close>

subsection \<open>Authorization\<close>

text \<open>
  Claim C1. Once the target-network check has passed (no lookup error, and the name is empty
  or the network exists), for every credential that \<^verbatim>\<open>SecurityCheck\<close> parses as a bearer
  token (the header splits at spaces into at least two pieces, the second being the token):
  if the token equals the configured master key, the result is the network set
  \<open>[ALL_NETWORK_ACCESS]\<close> with no error, whatever \<open>reqAdmin\<close> is; if it differs from the
  master key and resolves to a user who is not an admin while \<open>reqAdmin\<close> is true, the
  result is the error "You are unauthorized to access this endpoint" and no network set.
\<close>

theorem SecurityCheck_operator_and_forbidden:
  assumes target: "NetworkExists env netname = (networkexists, None)"
                  "netname = '''' \<or> networkexists"
      and bearer: "2 \<le> length (strings_Split token (CHR '' ''))"
                  "strings_Split token (CHR '' '') ! 1 = authToken"
  shows "(authToken = GetMasterKey env \<longrightarrow>
            SecurityCheck env reqAdmin netname token = (None, Some [ALL_NETWORK_ACCESS], ''''))
       \<and> (authToken \<noteq> GetMasterKey env \<and> reqAdmin \<and>
          VerifyUserToken env authToken = (userName, networks, False, None) \<longrightarrow>
            SecurityCheck env reqAdmin netname token =
              (Some (Error ''You are unauthorized to access this endpoint''), None, userName))"
  using assms by (auto simp add: SecurityCheck_def authenticateMaster_def Let_def)

theorem SecurityCheck_operator_and_forbidden_witness:
  "SecurityCheck env0 True ''net1'' ''Bearer secretkey'' = (None, Some [ALL_NETWORK_ACCESS], '''')
   \<and> SecurityCheck env0 False ''net1'' ''Bearer secretkey'' =
       (None, Some [ALL_NETWORK_ACCESS], '''')
   \<and> SecurityCheck env0 True ''net1'' ''Bearer usertoken'' =
       (Some (Error ''You are unauthorized to access this endpoint''), None, ''alice'')"
  using SecurityCheck_operator_and_forbidden
          [of env0 "''net1''" True "''Bearer secretkey''" "''secretkey''" True "''''" "[]"]
        SecurityCheck_operator_and_forbidden
          [of env0 "''net1''" True "''Bearer secretkey''" "''secretkey''" False "''''" "[]"]
        SecurityCheck_operator_and_forbidden
          [of env0 "''net1''" True "''Bearer usertoken''" "''usertoken''" True "''alice''"
              "[''net1'']"]
  by (simp add: env0_def)

text \<open>
  Claim C5. For every non-empty target network name that the existence lookup reports as
  missing, \<^verbatim>\<open>SecurityCheck\<close> returns the error "This network does not exist" with no network
  set and no user name: the result is the same for every credential, every \<open>reqAdmin\<close>,
  every master key and every token verifier, none of which is consulted.
\<close>

theorem SecurityCheck_missing_network:
  assumes "netname \<noteq> ''''" and "NetworkExists env netname = (False, None)"
  shows "SecurityCheck env reqAdmin netname token =
           (Some (Error ''This network does not exist''), None, '''')"
  using assms by (simp add: SecurityCheck_def)

theorem SecurityCheck_missing_network_witness:
  "SecurityCheck env0 False ''ghost'' ''Bearer secretkey'' =
     (Some (Error ''This network does not exist''), None, '''')
   \<and> SecurityCheck env0 True ''ghost'' ''garbage'' =
     (Some (Error ''This network does not exist''), None, '''')"
  using SecurityCheck_missing_network [of "''ghost''" env0 False "''Bearer secretkey''"]
        SecurityCheck_missing_network [of "''ghost''" env0 True "''garbage''"]
  by (simp add: env0_def)

subsection \<open>Updating a network\<close>

text \<open>
  Claim C2, as the code has it. For every current network and every patch that
  \<^verbatim>\<open>UpdateNetwork\<close> accepts, the flag \<open>hasrangeupdate\<close> is set if and only if the patch's IPv4
  address-range field is non-empty. Hence it is set whenever the merged record's IPv4 or
  IPv6 range differs from the current one, and when the record is persisted the call
  \<^verbatim>\<open>UpdateNetworkNodeAddresses\<close> is issued exactly when the flag is set.
\<close>

theorem UpdateNetwork_range_flag:
  assumes accepted: "NetworkUpdate.NetID networkChange = NetID network"
      and persisted: "mongo_fault env OpFindOneAndUpdate = None"
                     "find (\<lambda>doc. NetID doc = NetID network) (collection w) = Some doc"
  shows "fst (snd (snd (UpdateNetwork_merge env networkChange network))) =
           (NetworkUpdate.AddressRange networkChange \<noteq> '''')
       \<and> (AddressRange (fst (UpdateNetwork_merge env networkChange network)) \<noteq>
            AddressRange network \<or>
          AddressRange6 (fst (UpdateNetwork_merge env networkChange network)) \<noteq>
            AddressRange6 network \<longrightarrow>
          fst (snd (snd (UpdateNetwork_merge env networkChange network))))
       \<and> calls (snd (UpdateNetwork env networkChange network w)) =
           calls w @ [Call_FindOneAndUpdate (NetID network)]
           @ (if NetworkUpdate.AddressRange networkChange \<noteq> ''''
              then [Call_UpdateNetworkNodeAddresses (NetID network)] else [])
           @ (if NetworkUpdate.LocalRange networkChange \<noteq> '''' \<and>
                 (NetworkUpdate.AddressRange networkChange = '''' \<or>
                  UpdateNetworkNodeAddresses env (NetID network) = None)
              then [Call_UpdateNetworkLocalAddresses (NetID network)] else [])"
proof -
  have flag: "fst (snd (snd (UpdateNetwork_merge env networkChange network))) =
                (NetworkUpdate.AddressRange networkChange \<noteq> '''')"
    by (simp add: merge_rangeflags)
  have differs: "NetworkUpdate.AddressRange networkChange \<noteq> ''''"
    if "AddressRange (fst (UpdateNetwork_merge env networkChange network)) \<noteq>
          AddressRange network \<or>
        AddressRange6 (fst (UpdateNetwork_merge env networkChange network)) \<noteq>
          AddressRange6 network"
    using that by (auto simp add: merge_AddressRange merge_AddressRange6 split: if_splits)
  show ?thesis
    using flag differs UpdateNetwork_calls [OF accepted persisted] by blast
qed

theorem UpdateNetwork_range_flag_witness:
  "fst (snd (snd (UpdateNetwork_merge env0 patch_same_range net1)))
   \<and> calls (snd (UpdateNetwork env0 patch_same_range net1 world0)) =
       [Call_FindOneAndUpdate ''net1'', Call_UpdateNetworkNodeAddresses ''net1'']"
proof -
  have accepted: "NetworkUpdate.NetID patch_same_range = NetID net1"
    by (simp add: patch_same_range_def scenario_NetID)
  have found: "find (\<lambda>doc. NetID doc = NetID net1) (collection world0) = Some net1"
    by (simp add: scenario_NetID scenario_find)
  have range: "NetworkUpdate.AddressRange patch_same_range = ''10.0.0.0/24''"
              "NetworkUpdate.LocalRange patch_same_range = ''''"
    by (simp_all add: patch_same_range_def empty_NetworkUpdate_def)
  show ?thesis
    using UpdateNetwork_range_flag [OF accepted scenario_fault found]
    by (simp add: range scenario_NetID world0_def)
qed

text \<open>
  The claim as stated fails twice. A patch whose address range equals the current one sets
  the flag although neither range of the merged record differs; a patch that changes only
  the IPv6 range sets no flag.
\<close>

theorem UpdateNetwork_range_flag_counterexample:
  "fst (snd (snd (UpdateNetwork_merge env0 patch_same_range net1)))
   \<and> AddressRange (fst (UpdateNetwork_merge env0 patch_same_range net1)) = AddressRange net1
   \<and> AddressRange6 (fst (UpdateNetwork_merge env0 patch_same_range net1)) = AddressRange6 net1
   \<and> NetworkUpdate.AddressRange6 patch_ipv6_only = ''fd00::/64''
   \<and> AddressRange6 net1 = ''''
   \<and> \<not> fst (snd (snd (UpdateNetwork_merge env0 patch_ipv6_only net1)))"
  by (simp add: merge_rangeflags merge_AddressRange merge_AddressRange6
        patch_same_range_def patch_ipv6_only_def empty_NetworkUpdate_def net1_def
        empty_Network_def)

text \<open>
  Claim C3. For every current network and every patch whose \<open>NetID\<close> differs from the
  current one, \<^verbatim>\<open>UpdateNetwork\<close> returns the error "NetID is not editable" and leaves the
  world as it was: the collection is unchanged and no call has been issued.
\<close>

theorem UpdateNetwork_NetID_not_editable:
  assumes "NetworkUpdate.NetID networkChange \<noteq> NetID network"
  shows "UpdateNetwork env networkChange network w =
           ((empty_Network, Some (Error ''NetID is not editable'')), w)"
  using assms by (simp add: UpdateNetwork_def)

theorem UpdateNetwork_NetID_not_editable_witness:
  "UpdateNetwork env0 patch_other_id net1 world0 =
     ((empty_Network, Some (Error ''NetID is not editable'')), world0)"
  using UpdateNetwork_NetID_not_editable [of patch_other_id net1 env0 world0]
  by (simp add: patch_other_id_def empty_NetworkUpdate_def scenario_NetID)

text \<open>
  Claim C6. For every current network and every patch whose \<open>NetID\<close> equals the current
  one and whose merged fields are all zero (empty strings, zero numbers, \<^verbatim>\<open>nil\<close> booleans),
  the merge returns the current record itself, with none of the three change flags set and
  hence with the old \<open>NetworkLastModified\<close>; \<^verbatim>\<open>UpdateNetwork\<close> then issues the write and
  no address-reallocation call.
\<close>

theorem UpdateNetwork_merge_zero_patch:
  assumes "NetworkUpdate.NetID networkChange = NetID network"
      and "NetworkUpdate.AddressRange networkChange = ''''"
      and "NetworkUpdate.LocalRange networkChange = ''''"
      and "NetworkUpdate.IsLocal networkChange = None"
      and "NetworkUpdate.IsDualStack networkChange = None"
      and "NetworkUpdate.DefaultListenPort networkChange = 0"
      and "NetworkUpdate.DefaultPostDown networkChange = ''''"
      and "NetworkUpdate.DefaultInterface networkChange = ''''"
      and "NetworkUpdate.DefaultPostUp networkChange = ''''"
      and "NetworkUpdate.DefaultKeepalive networkChange = 0"
      and "NetworkUpdate.DisplayName networkChange = ''''"
      and "NetworkUpdate.DefaultCheckInInterval networkChange = 0"
      and "NetworkUpdate.AllowManualSignUp networkChange = None"
  shows "UpdateNetwork_merge env networkChange network = (network, False, False, False)
       \<and> calls (snd (UpdateNetwork env networkChange network w)) =
           calls w @ [Call_FindOneAndUpdate (NetID network)]"
proof -
  have m: "UpdateNetwork_merge env networkChange network = (network, False, False, False)"
    using assms by (simp add: UpdateNetwork_merge_def)
  have "calls (snd (UpdateNetwork env networkChange network w)) =
          calls w @ [Call_FindOneAndUpdate (NetID network)]"
    using assms(1)
    by (simp add: UpdateNetwork_def m FindOneAndUpdate_def cascade_calls Let_def
          split: option.splits)
  with m show ?thesis by simp
qed

theorem UpdateNetwork_merge_zero_patch_witness:
  "UpdateNetwork_merge env0 patch_zero net1 = (net1, False, False, False)
   \<and> calls (snd (UpdateNetwork env0 patch_zero net1 world0)) = [Call_FindOneAndUpdate ''net1'']"
proof -
  have "NetworkUpdate.NetID patch_zero = NetID net1"
    by (simp add: patch_zero_def scenario_NetID)
  then show ?thesis
    using UpdateNetwork_merge_zero_patch [of patch_zero net1 env0 world0]
    by (simp add: patch_zero_def empty_NetworkUpdate_def scenario_NetID world0_def)
qed

text \<open>
  Claim C7, as the code has it. When the network is found and the driver does not fail,
  the node-limit handler with a non-zero \<open>NodeLimit\<close> in the patch replaces the first
  document of that network by the same document with only \<open>NodeLimit\<close> changed, every
  other document staying as it is; with a zero \<open>NodeLimit\<close> it writes nothing and the
  world is unchanged.
\<close>

theorem updateNetworkNodeLimit_writes_NodeLimit_only:
  assumes "collection w = pre @ doc # post"
      and "\<forall>d\<in>set pre. NetID d \<noteq> netname" and "NetID doc = netname"
      and "mongo_fault env OpFindOne = None" and "mongo_fault env OpFindOneAndUpdate = None"
  shows "snd (updateNetworkNodeLimit env netname networkChange w) =
           (if NetworkUpdate.NodeLimit networkChange = 0 then w
            else w\<lparr>collection :=
                      pre @ doc\<lparr>NodeLimit := NetworkUpdate.NodeLimit networkChange\<rparr> # post,
                    calls := calls w @ [Call_FindOneAndUpdate netname]\<rparr>)"
  using assms
  by (simp add: updateNetworkNodeLimit_def GetParentNetwork_def FindOne_def
        FindOneAndUpdate_def find_first_match update_first_match)

theorem updateNetworkNodeLimit_writes_NodeLimit_only_witness:
  "snd (updateNetworkNodeLimit env0 ''net2'' patch_limit world0) =
     \<lparr>collection = [net1, net2\<lparr>NodeLimit := 9\<rparr>], calls = [Call_FindOneAndUpdate ''net2'']\<rparr>"
proof -
  have "collection world0 = [net1] @ net2 # []"
    by (simp add: world0_def)
  then show ?thesis
    using updateNetworkNodeLimit_writes_NodeLimit_only
            [of world0 "[net1]" net2 "[]" "''net2''" env0 patch_limit]
    by (simp add: scenario_NetID scenario_fault patch_limit_def empty_NetworkUpdate_def
          world0_def)
qed

text \<open>
  The claim as stated fails: a patch with node limit zero on a network whose stored limit
  is five leaves the stored limit at five and issues no write.
\<close>

theorem updateNetworkNodeLimit_zero_counterexample:
  "NetworkUpdate.NodeLimit empty_NetworkUpdate = 0
   \<and> map NodeLimit (collection world0) = [5, 7]
   \<and> updateNetworkNodeLimit env0 ''net1'' empty_NetworkUpdate world0 = (StatusOK net1, world0)"
  by (simp add: updateNetworkNodeLimit_def GetParentNetwork_def FindOne_def world0_def env0_def
        net1_def net2_def empty_Network_def empty_NetworkUpdate_def)

subsection \<open>Deleting a network\<close>

text \<open>
  Claim C4. For every network whose dependent-node count is reported without error, a
  count being non-negative: if the count is greater than zero, \<^verbatim>\<open>DeleteNetwork\<close> returns
  the error "Node check failed. All nodes must be deleted before deleting network" and
  leaves the world as it was, no delete having been issued; if the count is zero, the
  world is the one \<^verbatim>\<open>DeleteOne\<close> leaves; and a call is issued only when the count is zero.
\<close>

theorem DeleteNetwork_node_check:
  assumes "GetNetworkNodeNumber env network = (nodecount, None)" and "0 \<le> nodecount"
  shows "(0 < nodecount \<longrightarrow>
            DeleteNetwork env network w =
              ((0, Some (Error
                 ''Node check failed. All nodes must be deleted before deleting network'')), w))
       \<and> (nodecount = 0 \<longrightarrow>
            snd (DeleteNetwork env network w) = snd (DeleteOne env network w))
       \<and> (calls (snd (DeleteNetwork env network w)) \<noteq> calls w \<longrightarrow> nodecount = 0)"
  using assms
  by (auto simp add: DeleteNetwork_def split: prod.splits sum.splits)

theorem DeleteNetwork_node_check_witness:
  "DeleteNetwork env0 ''net1'' world0 =
     ((0, Some (Error
        ''Node check failed. All nodes must be deleted before deleting network'')), world0)
   \<and> snd (DeleteNetwork env0 ''net2'' world0) =
       \<lparr>collection = [net1], calls = [Call_DeleteOne ''net2'']\<rparr>"
  using DeleteNetwork_node_check [of env0 "''net1''" 2 world0]
        DeleteNetwork_node_check [of env0 "''net2''" 0 world0]
  by (simp add: env0_def world0_def DeleteOne_def scenario_NetID)

subsection \<open>Issuing an access key\<close>

text \<open>
  Claim C8. For every network whose stored key list can be read and every request whose
  name, the explicit one or the generated one when the request names none, is the name of
  a key in that list, \<^verbatim>\<open>CreateAccessKey\<close> returns the error "Duplicate AccessKey Name" and
  leaves the world as it was: no write is issued and the stored key list is unchanged.
\<close>

theorem CreateAccessKey_duplicate_name:
  assumes "GetKeys env (NetID network) w = (checkkeys, None)"
      and "(if Name accesskey = '''' then GenKeyName env else Name accesskey)
             \<in> Name ` set checkkeys"
  shows "CreateAccessKey env accesskey network w =
           ((empty_AccessKey, Some (Error ''Duplicate AccessKey Name'')), w)"
  using assms by (auto simp add: CreateAccessKey_def Let_def CreateAccessKey_loop_iff)

theorem CreateAccessKey_duplicate_name_witness:
  "CreateAccessKey env0 (empty_AccessKey\<lparr>Name := ''laptop''\<rparr>) net1 world0 =
     ((empty_AccessKey, Some (Error ''Duplicate AccessKey Name'')), world0)
   \<and> CreateAccessKey env0 empty_AccessKey net1 world0 =
     ((empty_AccessKey, Some (Error ''Duplicate AccessKey Name'')), world0)"
  using CreateAccessKey_duplicate_name
          [of env0 net1 world0 "[key1]" "empty_AccessKey\<lparr>Name := ''laptop''\<rparr>"]
        CreateAccessKey_duplicate_name [of env0 net1 world0 "[key1]" empty_AccessKey]
  by (simp add: GetKeys_def FindOne_def env0_def world0_def net1_def net2_def key1_def
        empty_AccessKey_def empty_Network_def)

subsection \<open>The table store\<close>

text \<open>
  Claim C9, as the code has it. For every table that can be queried and every key absent
  from it, \<^verbatim>\<open>FetchRecord\<close> returns the empty string and no error.
\<close>

theorem FetchRecord_missing_key:
  assumes "db tableName = (row, None)" and "key \<notin> fst ` set row"
  shows "FetchRecord db tableName key = ('''', None)"
  using assms by (simp add: FetchRecord_def FetchRecords_def FetchRecords_loop_absent)

theorem FetchRecord_missing_key_witness:
  "FetchRecord db0 ''networks'' ''absent'' = ('''', None)"
  using FetchRecord_missing_key [of db0 "''networks''" "[(''present'', '''')]" "''absent''"]
  by (simp add: db0_def)

text \<open>
  The claim as stated fails: the fetch of an absent key succeeds, with the very result of
  the fetch of a key stored with an empty value.
\<close>

theorem FetchRecord_not_found_counterexample:
  "FetchRecord db0 ''networks'' ''absent'' = ('''', None)
   \<and> FetchRecord db0 ''networks'' ''present'' = ('''', None)
   \<and> FetchRecord db0 ''networks'' ''absent'' = FetchRecord db0 ''networks'' ''present''"
  by (simp add: FetchRecord_def FetchRecords_def db0_def)

subsection \<open>The listing filter\<close>

text \<open>
  Away from the marker value \<^verbatim>\<open>RemoveComms\<close> removes the last \<^verbatim>\<open>comms\<close> record. It returns
  the list unchanged when no element has \<open>NetID\<close> \<^verbatim>\<open>"comms"\<close>. When the last such element
  is not at position \<open>100000001\<close>, in particular in every list of at most \<open>100000001\<close>
  elements, it returns the list without that one element, the others in their order; the
  result then shows no \<^verbatim>\<open>comms\<close> network if there was only one.
\<close>

theorem RemoveComms_removes_last_comms:
  "((\<forall>n\<in>set networks. NetID n \<noteq> ''comms'') \<longrightarrow> RemoveComms networks = networks)
   \<and> (NetID c = ''comms'' \<and> (\<forall>n\<in>set post. NetID n \<noteq> ''comms'') \<and>
      length pre \<noteq> 100000001 \<longrightarrow>
        RemoveComms (pre @ c # post) = pre @ post \<and>
        ((\<forall>n\<in>set pre. NetID n \<noteq> ''comms'') \<longrightarrow>
           (\<forall>n\<in>set (RemoveComms (pre @ c # post)). NetID n \<noteq> ''comms'')))"
proof -
  have "RemoveComms networks = networks" if "\<forall>n\<in>set networks. NetID n \<noteq> ''comms''"
    using that by (simp add: RemoveComms_def RemoveComms_loop_none)
  moreover have "RemoveComms (pre @ c # post) = pre @ post"
    if "NetID c = ''comms''" "\<forall>n\<in>set post. NetID n \<noteq> ''comms''" "length pre \<noteq> 100000001"
    using that by (simp add: RemoveComms_def RemoveComms_loop_last)
  ultimately show ?thesis by auto
qed

theorem RemoveComms_removes_last_comms_instances:
  "RemoveComms [net1, net2] = [net1, net2]
   \<and> RemoveComms [net1, comms_net, net2] = [net1, net2]
   \<and> RemoveComms [comms_net, net1, comms_net, net2] = [comms_net, net1, net2]"
proof -
  have "RemoveComms [net1, net2] = [net1, net2]"
       "RemoveComms [net1, comms_net, net2] = [net1, net2]"
    using RemoveComms_removes_last_comms [of "[net1, net2]" comms_net "[net2]" "[net1]"]
    by (simp_all add: scenario_NetID)
  moreover have "RemoveComms [comms_net, net1, comms_net, net2] = [comms_net, net1, net2]"
    using RemoveComms_removes_last_comms [of "[net1]" comms_net "[net2]" "[comms_net, net1]"]
    by (simp add: scenario_NetID)
  ultimately show ?thesis by blast
qed

text \<open>
  Claim C10. \<^verbatim>\<open>RemoveComms\<close> is to return every list that holds a \<^verbatim>\<open>comms\<close> record without
  the last such record, so that the listing of \<^verbatim>\<open>getNetworks\<close> never shows that network
  when it appears once. The code departs from this where the match index meets its own
  marker for "no match": in the list of \<open>100000002\<close> records whose last one, at position
  \<open>100000001\<close>, is the only \<^verbatim>\<open>comms\<close> network, the loop leaves \<open>index\<close> at \<open>100000001\<close>,
  the guard takes it for no match, and the list is returned unchanged with the \<^verbatim>\<open>comms\<close>
  record still in it.
\<close>

theorem RemoveComms_at_marker_index:
  "NetID comms_net = ''comms''
   \<and> NetID net1 \<noteq> ''comms''
   \<and> RemoveComms_loop (replicate 100000001 net1 @ [comms_net]) 0 100000001 = 100000001
   \<and> RemoveComms (replicate 100000001 net1 @ [comms_net]) =
       replicate 100000001 net1 @ [comms_net]
   \<and> comms_net \<in> set (RemoveComms (replicate 100000001 net1 @ [comms_net]))"
  by (simp add: RemoveComms_def RemoveComms_loop_last scenario_NetID)

end
